theory Spec2Isabelle
  imports Main
begin

section \<open>Python values, exceptions and JSON\<close>

text \<open>
  The server is one Python module, \<^verbatim>\<open>server.py\<close>, holding 27 tool handlers produced from
  one template. Every handler has the same body:
  \<^verbatim>\<open>
    api_key = get_active_api_key(context)
    try:
        url = f"https://pro-api.coinmarketcap.com<path>"
        params = { "<name>": <name>, ..., "<flag>": str(<flag>).lower() }
        params = {k: v for k, v in params.items() if v is not None}
        headers = {}
        if api_key:
            headers["X-CMC_PRO_API_KEY"] = api_key
            headers["Authorization"] = f"Bearer {api_key}"
            headers["X-API-Key"] = api_key
        response = requests.get(url, params=params, headers=headers, timeout=30)
        response.raise_for_status()
        return response.json()
    except Exception as e:
        logger.error(f"Error in <tool>: {e}")
        return {"error": str(e), "endpoint": "<path>"}
  \<close>
  The handlers differ in their signature (parameter names, annotations, defaults), in the
  URL, in the entries of the \<^verbatim>\<open>params\<close> literal and in the endpoint string of the error
  dictionary. The body is modelled once, and each handler is a record of what it alone
  contributes.

  The argument values a handler can be called with are the scalars of its annotations
  (\<^verbatim>\<open>str\<close>, \<^verbatim>\<open>int\<close>, \<^verbatim>\<open>float\<close>, \<^verbatim>\<open>bool\<close>, \<^verbatim>\<open>Optional[...]\<close>). A float is kept as its
  \<^verbatim>\<open>repr\<close> text, which identifies it; no handler computes with one.
\<close>

datatype pyval = PNone | PBool bool | PInt int | PFloat string | PStr string

datatype pytype = TStr | TInt | TFloat | TBool | TOptional pytype

text \<open>
  The exceptions that can arise inside the \<^verbatim>\<open>try\<close> block. \<^verbatim>\<open>requests.get\<close> raises
  subclasses of \<^verbatim>\<open>RequestException\<close> (among them \<^verbatim>\<open>ConnectionError\<close> and \<^verbatim>\<open>Timeout\<close>),
  \<^verbatim>\<open>raise_for_status\<close> raises \<^verbatim>\<open>HTTPError\<close>, \<^verbatim>\<open>response.json()\<close> raises
  \<^verbatim>\<open>JSONDecodeError\<close>, and reading an unbound name raises \<^verbatim>\<open>NameError\<close>. All of them
  derive from \<^verbatim>\<open>Exception\<close>, which is what the handler's \<^verbatim>\<open>except\<close> clause catches. An
  exception carries the text that \<^verbatim>\<open>str(e)\<close> returns.
\<close>

datatype exc_class =
  NameError | ConnectionError | Timeout | HTTPError | JSONDecodeError | RequestException

datatype pyexc = PyExc exc_class string

fun exc_str :: "pyexc \<Rightarrow> string" where
  "exc_str (PyExc c m) = m"

text \<open>What \<^verbatim>\<open>response.json()\<close> returns, and what a handler returns to its caller.\<close>

datatype json =
  JNull | JBool bool | JInt int | JFloat string | JStr string
  | JArr "json list" | JObj "(string \<times> json) list"

subsection \<open>\<^verbatim>\<open>str(x)\<close> and \<^verbatim>\<open>.lower()\<close>\<close>

text \<open>Decimal text of an integer, as \<^verbatim>\<open>str\<close> and an f-string give it.\<close>

definition digit_char :: "nat \<Rightarrow> char" where
  "digit_char d = ''0123456789'' ! d"

function dec_nat :: "nat \<Rightarrow> string" where
  "dec_nat n = (if n < 10 then [digit_char n] else dec_nat (n div 10) @ [digit_char (n mod 10)])"
  by pat_completeness auto
termination
  by (relation "measure (\<lambda>n. n)") auto

declare dec_nat.simps [simp del]

definition dec_int :: "int \<Rightarrow> string" where
  "dec_int i = (if i < 0 then CHR ''-'' # dec_nat (nat (- i)) else dec_nat (nat i))"

fun py_str :: "pyval \<Rightarrow> string" where
  "py_str PNone = ''None''"
| "py_str (PBool b) = (if b then ''True'' else ''False'')"
| "py_str (PInt i) = dec_int i"
| "py_str (PFloat r) = r"
| "py_str (PStr s) = s"

text \<open>\<^verbatim>\<open>str.lower\<close> on the ASCII letters; the other characters are unchanged.\<close>

definition lower_char :: "char \<Rightarrow> char" where
  "lower_char c =
     (let n = (of_char c :: nat) in if 65 \<le> n \<and> n \<le> 90 then char_of (n + 32) else c)"

definition lower :: "string \<Rightarrow> string" where
  "lower s = map lower_char s"

section \<open>Tool handlers\<close>

text \<open>
  What one handler contributes to the template:
  \<^item> \<open>tool_sig\<close>: the parameters after \<^verbatim>\<open>context\<close>, each with its annotation and its default
    (every parameter of every handler has one; \<^verbatim>\<open>None\<close> is \<open>PNone\<close>);
  \<^item> \<open>tool_url\<close>: the string assigned to \<^verbatim>\<open>url\<close>;
  \<^item> \<open>tool_params\<close>: the entries of the \<^verbatim>\<open>params\<close> dictionary literal, in order, each value
    either a parameter name or \<^verbatim>\<open>str(<name>).lower()\<close>;
  \<^item> \<open>tool_endpoint\<close>: the \<^verbatim>\<open>"endpoint"\<close> string of the error dictionary.
\<close>

datatype expr = Var string | StrLower string

record tool =
  tool_name :: string
  tool_sig :: "(string \<times> pytype \<times> pyval) list"
  tool_url :: string
  tool_params :: "(string \<times> expr) list"
  tool_endpoint :: string


section \<open>The handler body\<close>

subsection \<open>Binding the arguments\<close>

text \<open>
  A call supplies some of the parameters by keyword; the others take their defaults. The
  result is the handler's local variables. The framework that calls a handler validates
  the arguments against the signature first, so only declared names are looked up here.
\<close>

type_synonym kwargs = "string \<rightharpoonup> pyval"

definition arg_value :: "kwargs \<Rightarrow> string \<Rightarrow> pyval \<Rightarrow> pyval" where
  "arg_value kw n d = (case kw n of Some v \<Rightarrow> v | None \<Rightarrow> d)"

definition bind_args :: "(string \<times> pytype \<times> pyval) list \<Rightarrow> kwargs \<Rightarrow> (string \<rightharpoonup> pyval)" where
  "bind_args sg kw = map_of (map (\<lambda>(n, ty, d). (n, arg_value kw n d)) sg)"

subsection \<open>The query parameters\<close>

definition name_error :: "string \<Rightarrow> pyexc" where
  "name_error n =
     PyExc NameError (''name '' @ [CHR 0x27] @ n @ [CHR 0x27] @ '' is not defined'')"

fun eval_expr :: "(string \<rightharpoonup> pyval) \<Rightarrow> expr \<Rightarrow> pyexc + pyval" where
  "eval_expr env (Var n) =
     (case env n of
        None \<Rightarrow> Inl (name_error n)
      | Some v \<Rightarrow> Inr v)"
| "eval_expr env (StrLower n) =
     (case env n of
        None \<Rightarrow> Inl (name_error n)
      | Some v \<Rightarrow> Inr (PStr (lower (py_str v))))"

text \<open>
  The dictionary literal, evaluated entry by entry from the left; the first exception
  ends it. No handler repeats a key, so an association list in the order of the literal
  is the dictionary.
\<close>

fun dict_literal :: "(string \<rightharpoonup> pyval) \<Rightarrow> (string \<times> expr) list \<Rightarrow> pyexc + (string \<times> pyval) list" where
  "dict_literal env [] = Inr []"
| "dict_literal env ((k, e) # rest) =
     (case eval_expr env e of
        Inl x \<Rightarrow> Inl x
      | Inr v \<Rightarrow>
          (case dict_literal env rest of
             Inl x \<Rightarrow> Inl x
           | Inr d \<Rightarrow> Inr ((k, v) # d)))"

text \<open>\<^verbatim>\<open>{k: v for k, v in params.items() if v is not None}\<close>\<close>

definition drop_none :: "(string \<times> pyval) list \<Rightarrow> (string \<times> pyval) list" where
  "drop_none d = filter (\<lambda>(k, v). v \<noteq> PNone) d"

text \<open>
  The two \<^verbatim>\<open>params\<close> assignments together. The handlers whose literal is \<^verbatim>\<open>{}\<close> leave the
  comprehension out; on the empty dictionary it changes nothing.
\<close>

definition build_params :: "tool \<Rightarrow> kwargs \<Rightarrow> pyexc + (string \<times> pyval) list" where
  "build_params t kw =
     (case dict_literal (bind_args (tool_sig t) kw) (tool_params t) of
        Inl x \<Rightarrow> Inl x
      | Inr d \<Rightarrow> Inr (drop_none d))"

subsection \<open>The headers\<close>

text \<open>
  \<open>api_key\<close> is what \<^verbatim>\<open>get_active_api_key(context)\<close> returned: \<^verbatim>\<open>None\<close> or a string.
  \<^verbatim>\<open>if api_key:\<close> holds for a string that is not empty.
\<close>

definition auth_headers :: "string option \<Rightarrow> (string \<times> string) list" where
  "auth_headers api_key =
     (case api_key of
        None \<Rightarrow> []
      | Some k \<Rightarrow>
          if k = [] then []
          else [(''X-CMC_PRO_API_KEY'', k),
                (''Authorization'', ''Bearer '' @ k),
                (''X-API-Key'', k)])"

subsection \<open>The outbound call\<close>

text \<open>
  The upstream service and the HTTP library are the environment: a function from the
  request to what \<^verbatim>\<open>requests.get\<close> does with it, either raising or returning a response.
  A response carries its status line, its final URL and what parsing its body as JSON
  gives (\<open>Inl\<close> the decoder's message when the body is not JSON). Every call is recorded
  in the list of requests sent.
\<close>

record request =
  req_method :: string
  req_url :: string
  req_params :: "(string \<times> pyval) list"
  req_headers :: "(string \<times> string) list"
  req_timeout :: nat

record response =
  status_code :: nat
  reason :: string
  resp_url :: string
  resp_body :: "string + json"

datatype reply = Raises pyexc | Responds response

type_synonym network = "request \<Rightarrow> reply"

definition requests_get ::
  "network \<Rightarrow> string \<Rightarrow> (string \<times> pyval) list \<Rightarrow> (string \<times> string) list \<Rightarrow> nat \<Rightarrow>
   request list \<Rightarrow> (pyexc + response) \<times> request list" where
  "requests_get net u ps hs tmo sent =
     (let rq = \<lparr>req_method = ''GET'', req_url = u, req_params = ps, req_headers = hs,
                req_timeout = tmo\<rparr>
      in (case net rq of Raises e \<Rightarrow> Inl e | Responds r \<Rightarrow> Inr r, sent @ [rq]))"

text \<open>
  \<^verbatim>\<open>Response.raise_for_status\<close> of the \<^verbatim>\<open>requests\<close> library: an \<^verbatim>\<open>HTTPError\<close> for a status
  from 400 to 599, with the message
  \<^verbatim>\<open>"<status> Client Error: <reason> for url: <url>"\<close> (\<^verbatim>\<open>Server Error\<close> from 500 on), and
  nothing for any other status.
\<close>

definition raise_for_status :: "response \<Rightarrow> pyexc option" where
  "raise_for_status r =
     (if 400 \<le> status_code r \<and> status_code r < 500 then
        Some (PyExc HTTPError
          (dec_nat (status_code r) @ '' Client Error: '' @ reason r @ '' for url: '' @ resp_url r))
      else if 500 \<le> status_code r \<and> status_code r < 600 then
        Some (PyExc HTTPError
          (dec_nat (status_code r) @ '' Server Error: '' @ reason r @ '' for url: '' @ resp_url r))
      else None)"

definition response_json :: "response \<Rightarrow> pyexc + json" where
  "response_json r =
     (case resp_body r of
        Inl m \<Rightarrow> Inl (PyExc JSONDecodeError m)
      | Inr j \<Rightarrow> Inr j)"

subsection \<open>\<^verbatim>\<open>try\<close> and \<^verbatim>\<open>except\<close>\<close>

text \<open>
  The \<^verbatim>\<open>try\<close> block: its result is the value it returns or the exception that leaves it,
  together with the requests sent so far.
\<close>

definition try_block ::
  "tool \<Rightarrow> string option \<Rightarrow> network \<Rightarrow> kwargs \<Rightarrow> request list \<Rightarrow> (pyexc + json) \<times> request list" where
  "try_block t api_key net kw sent =
     (case build_params t kw of
        Inl x \<Rightarrow> (Inl x, sent)
      | Inr params \<Rightarrow>
          (case requests_get net (tool_url t) params (auth_headers api_key) 30 sent of
             (Inl x, sent') \<Rightarrow> (Inl x, sent')
           | (Inr r, sent') \<Rightarrow>
               (case raise_for_status r of
                  Some x \<Rightarrow> (Inl x, sent')
                | None \<Rightarrow> (response_json r, sent'))))"

text \<open>\<^verbatim>\<open>{"error": str(e), "endpoint": "<path>"}\<close>\<close>

definition error_envelope :: "pyexc \<Rightarrow> string \<Rightarrow> json" where
  "error_envelope e ep = JObj [(''error'', JStr (exc_str e)), (''endpoint'', JStr ep)]"

text \<open>
  The whole handler. \<open>Inl\<close> in the result would be an exception that leaves the handler;
  the second component is the list of requests it sent. The \<^verbatim>\<open>logger.error\<close> line of the
  \<^verbatim>\<open>except\<close> clause writes to the log and has no part in the result; it is left out.
\<close>

definition tool_handler ::
  "tool \<Rightarrow> string option \<Rightarrow> network \<Rightarrow> kwargs \<Rightarrow> (pyexc + json) \<times> request list" where
  "tool_handler t api_key net kw =
     (case try_block t api_key net kw [] of
        (Inl e, sent) \<Rightarrow> (Inr (error_envelope e (tool_endpoint t)), sent)
      | (Inr v, sent) \<Rightarrow> (Inr v, sent))"

subsection \<open>Inside \<^verbatim>\<open>requests.get\<close>: redirects\<close>









section \<open>The catalogue\<close>

text \<open>
  The 27 handlers of \<^verbatim>\<open>server.py\<close>, in the order of the file, each under the name of
  its function.
\<close>

definition coinmarketcap_id_map :: tool where
  "coinmarketcap_id_map =
    \<lparr>tool_name = ''coinmarketcap_id_map'',
     tool_sig =
       [(''listing_status'', TStr, (PStr ''active'')),
        (''start'', TInt, (PInt 1)),
        (''limit'', (TOptional TInt), PNone),
        (''sort'', TStr, (PStr ''id'')),
        (''symbol'', (TOptional TStr), PNone),
        (''aux'', TStr, (PStr ''platform,first_historical_data,last_historical_data,is_active''))],
     tool_url = ''https://pro-api.coinmarketcap.com/v1/cryptocurrency/map'',
     tool_params =
       [(''listing_status'', Var ''listing_status''),
        (''start'', Var ''start''),
        (''limit'', Var ''limit''),
        (''sort'', Var ''sort''),
        (''symbol'', Var ''symbol''),
        (''aux'', Var ''aux'')],
     tool_endpoint = ''/v1/cryptocurrency/map''\<rparr>"

definition exchange_assets :: tool where
  "exchange_assets =
    \<lparr>tool_name = ''exchange_assets'',
     tool_sig =
       [(''id'', (TOptional TStr), PNone)],
     tool_url = ''https://pro-api.coinmarketcap.com/v1/exchange/assets'',
     tool_params =
       [(''id'', Var ''id'')],
     tool_endpoint = ''/v1/exchange/assets''\<rparr>"

definition coinmarketcap_id_map_10a0 :: tool where
  "coinmarketcap_id_map_10a0 =
    \<lparr>tool_name = ''coinmarketcap_id_map_10a0'',
     tool_sig =
       [(''listing_status'', TStr, (PStr ''active'')),
        (''slug'', (TOptional TStr), PNone),
        (''start'', TInt, (PInt 1)),
        (''limit'', (TOptional TInt), PNone),
        (''sort'', TStr, (PStr ''id'')),
        (''aux'', TStr, (PStr ''first_historical_data,last_historical_data,is_active'')),
        (''crypto_id'', (TOptional TStr), PNone)],
     tool_url = ''https://pro-api.coinmarketcap.com/v1/exchange/map'',
     tool_params =
       [(''listing_status'', Var ''listing_status''),
        (''slug'', Var ''slug''),
        (''start'', Var ''start''),
        (''limit'', Var ''limit''),
        (''sort'', Var ''sort''),
        (''aux'', Var ''aux''),
        (''crypto_id'', Var ''crypto_id'')],
     tool_endpoint = ''/v1/exchange/map''\<rparr>"

definition coinmarketcap_id_map_0es7 :: tool where
  "coinmarketcap_id_map_0es7 =
    \<lparr>tool_name = ''coinmarketcap_id_map_0es7'',
     tool_sig =
       [(''start'', TInt, (PInt 1)),
        (''limit'', (TOptional TInt), PNone),
        (''sort'', TStr, (PStr ''id'')),
        (''include_metals'', TBool, (PBool False))],
     tool_url = ''https://pro-api.coinmarketcap.com/v1/fiat/map'',
     tool_params =
       [(''start'', Var ''start''),
        (''limit'', Var ''limit''),
        (''sort'', Var ''sort''),
        (''include_metals'', StrLower ''include_metals'')],
     tool_endpoint = ''/v1/fiat/map''\<rparr>"

definition key_info :: tool where
  "key_info =
    \<lparr>tool_name = ''key_info'',
     tool_sig =
       [],
     tool_url = ''https://pro-api.coinmarketcap.com/v1/key/info'',
     tool_params =
       [],
     tool_endpoint = ''/v1/key/info''\<rparr>"

definition postman_conversion_v1 :: tool where
  "postman_conversion_v1 =
    \<lparr>tool_name = ''postman_conversion_v1'',
     tool_sig =
       [],
     tool_url = ''https://pro-api.coinmarketcap.com/v1/tools/postman'',
     tool_params =
       [],
     tool_endpoint = ''/v1/tools/postman''\<rparr>"

definition cmc_crypto_fear_and_greed_historical :: tool where
  "cmc_crypto_fear_and_greed_historical =
    \<lparr>tool_name = ''cmc_crypto_fear_and_greed_historical'',
     tool_sig =
       [(''start'', TInt, (PInt 1)),
        (''limit'', TInt, (PInt 50))],
     tool_url = ''https://pro-api.coinmarketcap.com/v3/fear-and-greed/historical'',
     tool_params =
       [(''start'', Var ''start''),
        (''limit'', Var ''limit'')],
     tool_endpoint = ''/v3/fear-and-greed/historical''\<rparr>"

definition cmc_crypto_fear_and_greed_latest :: tool where
  "cmc_crypto_fear_and_greed_latest =
    \<lparr>tool_name = ''cmc_crypto_fear_and_greed_latest'',
     tool_sig =
       [],
     tool_url = ''https://pro-api.coinmarketcap.com/v3/fear-and-greed/latest'',
     tool_params =
       [],
     tool_endpoint = ''/v3/fear-and-greed/latest''\<rparr>"

definition listings_latest :: tool where
  "listings_latest =
    \<lparr>tool_name = ''listings_latest'',
     tool_sig =
       [(''start'', TInt, (PInt 1)),
        (''limit'', TInt, (PInt 100)),
        (''price_min'', (TOptional TFloat), PNone),
        (''price_max'', (TOptional TFloat), PNone),
        (''market_cap_min'', (TOptional TFloat), PNone),
        (''market_cap_max'', (TOptional TFloat), PNone),
        (''volume_24h_min'', (TOptional TFloat), PNone),
        (''volume_24h_max'', (TOptional TFloat), PNone),
        (''circulating_supply_min'', (TOptional TFloat), PNone),
        (''circulating_supply_max'', (TOptional TFloat), PNone),
        (''percent_change_24h_min'', (TOptional TFloat), PNone),
        (''percent_change_24h_max'', (TOptional TFloat), PNone),
        (''self_reported_circulating_supply_min'', (TOptional TFloat), PNone),
        (''self_reported_circulating_supply_max'', (TOptional TFloat), PNone),
        (''self_reported_market_cap_min'', (TOptional TFloat), PNone),
        (''self_reported_market_cap_max'', (TOptional TFloat), PNone),
        (''unlocked_market_cap_min'', (TOptional TFloat), PNone),
        (''unlocked_market_cap_max'', (TOptional TFloat), PNone),
        (''unlocked_circulating_supply_min'', (TOptional TFloat), PNone),
        (''unlocked_circulating_supply_max'', (TOptional TFloat), PNone),
        (''convert'', (TOptional TStr), PNone),
        (''convert_id'', (TOptional TStr), PNone),
        (''sort'', TStr, (PStr ''market_cap'')),
        (''sort_dir'', (TOptional TStr), PNone),
        (''cryptocurrency_type'', TStr, (PStr ''all'')),
        (''tag'', TStr, (PStr ''all'')),
        (''aux'', TStr, (PStr ''num_market_pairs,cmc_rank,date_added,tags,platform,max_supply,circulating_supply,total_supply''))],
     tool_url = ''https://pro-api.coinmarketcap.com/v1/cryptocurrency/listings/latest'',
     tool_params =
       [(''start'', Var ''start''),
        (''limit'', Var ''limit''),
        (''price_min'', Var ''price_min''),
        (''price_max'', Var ''price_max''),
        (''market_cap_min'', Var ''market_cap_min''),
        (''market_cap_max'', Var ''market_cap_max''),
        (''volume_24h_min'', Var ''volume_24h_min''),
        (''volume_24h_max'', Var ''volume_24h_max''),
        (''circulating_supply_min'', Var ''circulating_supply_min''),
        (''circulating_supply_max'', Var ''circulating_supply_max''),
        (''percent_change_24h_min'', Var ''percent_change_24h_min''),
        (''percent_change_24h_max'', Var ''percent_change_24h_max''),
        (''self_reported_circulating_supply_min'', Var ''self_reported_circulating_supply_min''),
        (''self_reported_circulating_supply_max'', Var ''self_reported_circulating_supply_max''),
        (''self_reported_market_cap_min'', Var ''self_reported_market_cap_min''),
        (''self_reported_market_cap_max'', Var ''self_reported_market_cap_max''),
        (''unlocked_market_cap_min'', Var ''unlocked_market_cap_min''),
        (''unlocked_market_cap_max'', Var ''unlocked_market_cap_max''),
        (''unlocked_circulating_supply_min'', Var ''unlocked_circulating_supply_min''),
        (''unlocked_circulating_supply_max'', Var ''unlocked_circulating_supply_max''),
        (''convert'', Var ''convert''),
        (''convert_id'', Var ''convert_id''),
        (''sort'', Var ''sort''),
        (''sort_dir'', Var ''sort_dir''),
        (''cryptocurrency_type'', Var ''cryptocurrency_type''),
        (''tag'', Var ''tag''),
        (''aux'', Var ''aux'')],
     tool_endpoint = ''/v1/cryptocurrency/listings/latest''\<rparr>"

definition listings_new :: tool where
  "listings_new =
    \<lparr>tool_name = ''listings_new'',
     tool_sig =
       [(''start'', TInt, (PInt 1)),
        (''limit'', TInt, (PInt 100)),
        (''convert'', (TOptional TStr), PNone),
        (''convert_id'', (TOptional TStr), PNone),
        (''sort_dir'', (TOptional TStr), PNone)],
     tool_url = ''https://pro-api.coinmarketcap.com/v1/cryptocurrency/listings/new'',
     tool_params =
       [(''start'', Var ''start''),
        (''limit'', Var ''limit''),
        (''convert'', Var ''convert''),
        (''convert_id'', Var ''convert_id''),
        (''sort_dir'', Var ''sort_dir'')],
     tool_endpoint = ''/v1/cryptocurrency/listings/new''\<rparr>"

definition trending_gainers_losers :: tool where
  "trending_gainers_losers =
    \<lparr>tool_name = ''trending_gainers_losers'',
     tool_sig =
       [(''start'', TInt, (PInt 1)),
        (''limit'', TInt, (PInt 100)),
        (''time_period'', TStr, (PStr ''24h'')),
        (''convert'', (TOptional TStr), PNone),
        (''convert_id'', (TOptional TStr), PNone),
        (''sort'', TStr, (PStr ''percent_change_24h'')),
        (''sort_dir'', (TOptional TStr), PNone)],
     tool_url = ''https://pro-api.coinmarketcap.com/v1/cryptocurrency/trending/gainers-losers'',
     tool_params =
       [(''start'', Var ''start''),
        (''limit'', Var ''limit''),
        (''time_period'', Var ''time_period''),
        (''convert'', Var ''convert''),
        (''convert_id'', Var ''convert_id''),
        (''sort'', Var ''sort''),
        (''sort_dir'', Var ''sort_dir'')],
     tool_endpoint = ''/v1/cryptocurrency/trending/gainers-losers''\<rparr>"

definition trending_latest :: tool where
  "trending_latest =
    \<lparr>tool_name = ''trending_latest'',
     tool_sig =
       [(''start'', TInt, (PInt 1)),
        (''limit'', TInt, (PInt 100)),
        (''time_period'', TStr, (PStr ''24h'')),
        (''convert'', (TOptional TStr), PNone),
        (''convert_id'', (TOptional TStr), PNone)],
     tool_url = ''https://pro-api.coinmarketcap.com/v1/cryptocurrency/trending/latest'',
     tool_params =
       [(''start'', Var ''start''),
        (''limit'', Var ''limit''),
        (''time_period'', Var ''time_period''),
        (''convert'', Var ''convert''),
        (''convert_id'', Var ''convert_id'')],
     tool_endpoint = ''/v1/cryptocurrency/trending/latest''\<rparr>"

definition trending_most_visited :: tool where
  "trending_most_visited =
    \<lparr>tool_name = ''trending_most_visited'',
     tool_sig =
       [(''start'', TInt, (PInt 1)),
        (''limit'', TInt, (PInt 100)),
        (''time_period'', TStr, (PStr ''24h'')),
        (''convert'', (TOptional TStr), PNone),
        (''convert_id'', (TOptional TStr), PNone)],
     tool_url = ''https://pro-api.coinmarketcap.com/v1/cryptocurrency/trending/most-visited'',
     tool_params =
       [(''start'', Var ''start''),
        (''limit'', Var ''limit''),
        (''time_period'', Var ''time_period''),
        (''convert'', Var ''convert''),
        (''convert_id'', Var ''convert_id'')],
     tool_endpoint = ''/v1/cryptocurrency/trending/most-visited''\<rparr>"

definition market_pairs_latest :: tool where
  "market_pairs_latest =
    \<lparr>tool_name = ''market_pairs_latest'',
     tool_sig =
       [(''id'', (TOptional TStr), PNone),
        (''slug'', (TOptional TStr), PNone),
        (''start'', TInt, (PInt 1)),
        (''limit'', TInt, (PInt 100)),
        (''aux'', TStr, (PStr ''num_market_pairs,category,fee_type'')),
        (''matched_id'', (TOptional TStr), PNone),
        (''matched_symbol'', (TOptional TStr), PNone),
        (''category'', TStr, (PStr ''all'')),
        (''fee_type'', TStr, (PStr ''all'')),
        (''convert'', (TOptional TStr), PNone),
        (''convert_id'', (TOptional TStr), PNone)],
     tool_url = ''https://pro-api.coinmarketcap.com/v1/exchange/market-pairs/latest'',
     tool_params =
       [(''id'', Var ''id''),
        (''slug'', Var ''slug''),
        (''start'', Var ''start''),
        (''limit'', Var ''limit''),
        (''aux'', Var ''aux''),
        (''matched_id'', Var ''matched_id''),
        (''matched_symbol'', Var ''matched_symbol''),
        (''category'', Var ''category''),
        (''fee_type'', Var ''fee_type''),
        (''convert'', Var ''convert''),
        (''convert_id'', Var ''convert_id'')],
     tool_endpoint = ''/v1/exchange/market-pairs/latest''\<rparr>"

definition quotes_historical :: tool where
  "quotes_historical =
    \<lparr>tool_name = ''quotes_historical'',
     tool_sig =
       [(''id'', (TOptional TStr), PNone),
        (''slug'', (TOptional TStr), PNone),
        (''time_start'', (TOptional TStr), PNone),
        (''time_end'', (TOptional TStr), PNone),
        (''count'', TFloat, (PInt 10)),
        (''interval'', TStr, (PStr ''5m'')),
        (''convert'', (TOptional TStr), PNone),
        (''convert_id'', (TOptional TStr), PNone)],
     tool_url = ''https://pro-api.coinmarketcap.com/v1/exchange/quotes/historical'',
     tool_params =
       [(''id'', Var ''id''),
        (''slug'', Var ''slug''),
        (''time_start'', Var ''time_start''),
        (''time_end'', Var ''time_end''),
        (''count'', Var ''count''),
        (''interval'', Var ''interval''),
        (''convert'', Var ''convert''),
        (''convert_id'', Var ''convert_id'')],
     tool_endpoint = ''/v1/exchange/quotes/historical''\<rparr>"

definition quotes_latest :: tool where
  "quotes_latest =
    \<lparr>tool_name = ''quotes_latest'',
     tool_sig =
       [(''id'', (TOptional TStr), PNone),
        (''slug'', (TOptional TStr), PNone),
        (''convert'', (TOptional TStr), PNone),
        (''convert_id'', (TOptional TStr), PNone),
        (''aux'', TStr, (PStr ''num_market_pairs,traffic_score,rank,exchange_score,liquidity_score,effective_liquidity_24h''))],
     tool_url = ''https://pro-api.coinmarketcap.com/v1/exchange/quotes/latest'',
     tool_params =
       [(''id'', Var ''id''),
        (''slug'', Var ''slug''),
        (''convert'', Var ''convert''),
        (''convert_id'', Var ''convert_id''),
        (''aux'', Var ''aux'')],
     tool_endpoint = ''/v1/exchange/quotes/latest''\<rparr>"

definition quotes_historical_k8s0 :: tool where
  "quotes_historical_k8s0 =
    \<lparr>tool_name = ''quotes_historical_k8s0'',
     tool_sig =
       [(''time_start'', (TOptional TStr), PNone),
        (''time_end'', (TOptional TStr), PNone),
        (''count'', TFloat, (PInt 10)),
        (''interval'', TStr, (PStr ''1d'')),
        (''convert'', (TOptional TStr), PNone),
        (''convert_id'', (TOptional TStr), PNone),
        (''aux'', TStr, (PStr ''btc_dominance,eth_dominance,active_cryptocurrencies,active_exchanges,active_market_pairs,total_volume_24h,total_volume_24h_reported,altcoin_market_cap,altcoin_volume_24h,altcoin_volume_24h_reported''))],
     tool_url = ''https://pro-api.coinmarketcap.com/v1/global-metrics/quotes/historical'',
     tool_params =
       [(''time_start'', Var ''time_start''),
        (''time_end'', Var ''time_end''),
        (''count'', Var ''count''),
        (''interval'', Var ''interval''),
        (''convert'', Var ''convert''),
        (''convert_id'', Var ''convert_id''),
        (''aux'', Var ''aux'')],
     tool_endpoint = ''/v1/global-metrics/quotes/historical''\<rparr>"

definition quotes_latest_d46k :: tool where
  "quotes_latest_d46k =
    \<lparr>tool_name = ''quotes_latest_d46k'',
     tool_sig =
       [(''convert'', (TOptional TStr), PNone),
        (''convert_id'', (TOptional TStr), PNone)],
     tool_url = ''https://pro-api.coinmarketcap.com/v1/global-metrics/quotes/latest'',
     tool_params =
       [(''convert'', Var ''convert''),
        (''convert_id'', Var ''convert_id'')],
     tool_endpoint = ''/v1/global-metrics/quotes/latest''\<rparr>"

definition market_pairs_latest_v2 :: tool where
  "market_pairs_latest_v2 =
    \<lparr>tool_name = ''market_pairs_latest_v2'',
     tool_sig =
       [(''id'', (TOptional TStr), PNone),
        (''slug'', (TOptional TStr), PNone),
        (''symbol'', (TOptional TStr), PNone),
        (''start'', TInt, (PInt 1)),
        (''limit'', TInt, (PInt 100)),
        (''sort_dir'', TStr, (PStr ''desc'')),
        (''sort'', TStr, (PStr ''volume_24h_strict'')),
        (''aux'', TStr, (PStr ''num_market_pairs,category,fee_type'')),
        (''matched_id'', (TOptional TStr), PNone),
        (''matched_symbol'', (TOptional TStr), PNone),
        (''category'', TStr, (PStr ''all'')),
        (''fee_type'', TStr, (PStr ''all'')),
        (''convert'', (TOptional TStr), PNone),
        (''convert_id'', (TOptional TStr), PNone)],
     tool_url = ''https://pro-api.coinmarketcap.com/v2/cryptocurrency/market-pairs/latest'',
     tool_params =
       [(''id'', Var ''id''),
        (''slug'', Var ''slug''),
        (''symbol'', Var ''symbol''),
        (''start'', Var ''start''),
        (''limit'', Var ''limit''),
        (''sort_dir'', Var ''sort_dir''),
        (''sort'', Var ''sort''),
        (''aux'', Var ''aux''),
        (''matched_id'', Var ''matched_id''),
        (''matched_symbol'', Var ''matched_symbol''),
        (''category'', Var ''category''),
        (''fee_type'', Var ''fee_type''),
        (''convert'', Var ''convert''),
        (''convert_id'', Var ''convert_id'')],
     tool_endpoint = ''/v2/cryptocurrency/market-pairs/latest''\<rparr>"

definition ohlcv_historical_v2 :: tool where
  "ohlcv_historical_v2 =
    \<lparr>tool_name = ''ohlcv_historical_v2'',
     tool_sig =
       [(''id'', (TOptional TStr), PNone),
        (''slug'', (TOptional TStr), PNone),
        (''symbol'', (TOptional TStr), PNone),
        (''time_period'', TStr, (PStr ''daily'')),
        (''time_start'', (TOptional TStr), PNone),
        (''time_end'', (TOptional TStr), PNone),
        (''count'', TFloat, (PInt 10)),
        (''interval'', TStr, (PStr ''daily'')),
        (''convert'', (TOptional TStr), PNone),
        (''convert_id'', (TOptional TStr), PNone),
        (''skip_invalid'', TBool, (PBool True))],
     tool_url = ''https://pro-api.coinmarketcap.com/v2/cryptocurrency/ohlcv/historical'',
     tool_params =
       [(''id'', Var ''id''),
        (''slug'', Var ''slug''),
        (''symbol'', Var ''symbol''),
        (''time_period'', Var ''time_period''),
        (''time_start'', Var ''time_start''),
        (''time_end'', Var ''time_end''),
        (''count'', Var ''count''),
        (''interval'', Var ''interval''),
        (''convert'', Var ''convert''),
        (''convert_id'', Var ''convert_id''),
        (''skip_invalid'', StrLower ''skip_invalid'')],
     tool_endpoint = ''/v2/cryptocurrency/ohlcv/historical''\<rparr>"

definition ohlcv_latest_v2 :: tool where
  "ohlcv_latest_v2 =
    \<lparr>tool_name = ''ohlcv_latest_v2'',
     tool_sig =
       [(''id'', (TOptional TStr), PNone),
        (''symbol'', (TOptional TStr), PNone),
        (''convert'', (TOptional TStr), PNone),
        (''convert_id'', (TOptional TStr), PNone),
        (''skip_invalid'', TBool, (PBool True))],
     tool_url = ''https://pro-api.coinmarketcap.com/v2/cryptocurrency/ohlcv/latest'',
     tool_params =
       [(''id'', Var ''id''),
        (''symbol'', Var ''symbol''),
        (''convert'', Var ''convert''),
        (''convert_id'', Var ''convert_id''),
        (''skip_invalid'', StrLower ''skip_invalid'')],
     tool_endpoint = ''/v2/cryptocurrency/ohlcv/latest''\<rparr>"

definition price_performance_stats_v2 :: tool where
  "price_performance_stats_v2 =
    \<lparr>tool_name = ''price_performance_stats_v2'',
     tool_sig =
       [(''id'', (TOptional TStr), PNone),
        (''slug'', (TOptional TStr), PNone),
        (''symbol'', (TOptional TStr), PNone),
        (''time_period'', TStr, (PStr ''all_time'')),
        (''convert'', (TOptional TStr), PNone),
        (''convert_id'', (TOptional TStr), PNone),
        (''skip_invalid'', TBool, (PBool True))],
     tool_url = ''https://pro-api.coinmarketcap.com/v2/cryptocurrency/price-performance-stats/latest'',
     tool_params =
       [(''id'', Var ''id''),
        (''slug'', Var ''slug''),
        (''symbol'', Var ''symbol''),
        (''time_period'', Var ''time_period''),
        (''convert'', Var ''convert''),
        (''convert_id'', Var ''convert_id''),
        (''skip_invalid'', StrLower ''skip_invalid'')],
     tool_endpoint = ''/v2/cryptocurrency/price-performance-stats/latest''\<rparr>"

definition quotes_historical_v2 :: tool where
  "quotes_historical_v2 =
    \<lparr>tool_name = ''quotes_historical_v2'',
     tool_sig =
       [(''id'', (TOptional TStr), PNone),
        (''symbol'', (TOptional TStr), PNone),
        (''time_start'', (TOptional TStr), PNone),
        (''time_end'', (TOptional TStr), PNone),
        (''count'', TFloat, (PInt 10)),
        (''interval'', TStr, (PStr ''5m'')),
        (''convert'', (TOptional TStr), PNone),
        (''convert_id'', (TOptional TStr), PNone),
        (''aux'', TStr, (PStr ''price,volume,market_cap,circulating_supply,total_supply,quote_timestamp,is_active,is_fiat'')),
        (''skip_invalid'', TBool, (PBool True))],
     tool_url = ''https://pro-api.coinmarketcap.com/v2/cryptocurrency/quotes/historical'',
     tool_params =
       [(''id'', Var ''id''),
        (''symbol'', Var ''symbol''),
        (''time_start'', Var ''time_start''),
        (''time_end'', Var ''time_end''),
        (''count'', Var ''count''),
        (''interval'', Var ''interval''),
        (''convert'', Var ''convert''),
        (''convert_id'', Var ''convert_id''),
        (''aux'', Var ''aux''),
        (''skip_invalid'', StrLower ''skip_invalid'')],
     tool_endpoint = ''/v2/cryptocurrency/quotes/historical''\<rparr>"

definition quotes_latest_v2 :: tool where
  "quotes_latest_v2 =
    \<lparr>tool_name = ''quotes_latest_v2'',
     tool_sig =
       [(''id'', (TOptional TStr), PNone),
        (''slug'', (TOptional TStr), PNone),
        (''symbol'', (TOptional TStr), PNone),
        (''convert'', (TOptional TStr), PNone),
        (''convert_id'', (TOptional TStr), PNone),
        (''aux'', TStr, (PStr ''num_market_pairs,cmc_rank,date_added,tags,platform,max_supply,circulating_supply,total_supply,is_active,is_fiat'')),
        (''skip_invalid'', TBool, (PBool True))],
     tool_url = ''https://pro-api.coinmarketcap.com/v2/cryptocurrency/quotes/latest'',
     tool_params =
       [(''id'', Var ''id''),
        (''slug'', Var ''slug''),
        (''symbol'', Var ''symbol''),
        (''convert'', Var ''convert''),
        (''convert_id'', Var ''convert_id''),
        (''aux'', Var ''aux''),
        (''skip_invalid'', StrLower ''skip_invalid'')],
     tool_endpoint = ''/v2/cryptocurrency/quotes/latest''\<rparr>"

definition quotes_historical_v3 :: tool where
  "quotes_historical_v3 =
    \<lparr>tool_name = ''quotes_historical_v3'',
     tool_sig =
       [(''id'', (TOptional TStr), PNone),
        (''symbol'', (TOptional TStr), PNone),
        (''time_start'', (TOptional TStr), PNone),
        (''time_end'', (TOptional TStr), PNone),
        (''count'', TFloat, (PInt 10)),
        (''interval'', TStr, (PStr ''5m'')),
        (''convert'', (TOptional TStr), PNone),
        (''convert_id'', (TOptional TStr), PNone),
        (''aux'', TStr, (PStr ''price,volume,market_cap,circulating_supply,total_supply,quote_timestamp,is_active,is_fiat'')),
        (''skip_invalid'', TBool, (PBool True))],
     tool_url = ''https://pro-api.coinmarketcap.com/v3/cryptocurrency/quotes/historical'',
     tool_params =
       [(''id'', Var ''id''),
        (''symbol'', Var ''symbol''),
        (''time_start'', Var ''time_start''),
        (''time_end'', Var ''time_end''),
        (''count'', Var ''count''),
        (''interval'', Var ''interval''),
        (''convert'', Var ''convert''),
        (''convert_id'', Var ''convert_id''),
        (''aux'', Var ''aux''),
        (''skip_invalid'', StrLower ''skip_invalid'')],
     tool_endpoint = ''/v3/cryptocurrency/quotes/historical''\<rparr>"

definition fcas_listings_latest_deprecated :: tool where
  "fcas_listings_latest_deprecated =
    \<lparr>tool_name = ''fcas_listings_latest_deprecated'',
     tool_sig =
       [(''start'', TInt, (PInt 1)),
        (''limit'', TInt, (PInt 100)),
        (''aux'', TStr, (PStr ''point_change_24h,percent_change_24h''))],
     tool_url = ''https://pro-api.coinmarketcap.com/v1/partners/flipside-crypto/fcas/listings/latest'',
     tool_params =
       [(''start'', Var ''start''),
        (''limit'', Var ''limit''),
        (''aux'', Var ''aux'')],
     tool_endpoint = ''/v1/partners/flipside-crypto/fcas/listings/latest''\<rparr>"

definition fcas_quotes_latest_deprecated :: tool where
  "fcas_quotes_latest_deprecated =
    \<lparr>tool_name = ''fcas_quotes_latest_deprecated'',
     tool_sig =
       [(''id'', (TOptional TStr), PNone),
        (''slug'', (TOptional TStr), PNone),
        (''symbol'', (TOptional TStr), PNone),
        (''aux'', TStr, (PStr ''point_change_24h,percent_change_24h''))],
     tool_url = ''https://pro-api.coinmarketcap.com/v1/partners/flipside-crypto/fcas/quotes/latest'',
     tool_params =
       [(''id'', Var ''id''),
        (''slug'', Var ''slug''),
        (''symbol'', Var ''symbol''),
        (''aux'', Var ''aux'')],
     tool_endpoint = ''/v1/partners/flipside-crypto/fcas/quotes/latest''\<rparr>"

definition tools :: "tool list" where
  "tools =
    [coinmarketcap_id_map,
     exchange_assets,
     coinmarketcap_id_map_10a0,
     coinmarketcap_id_map_0es7,
     key_info,
     postman_conversion_v1,
     cmc_crypto_fear_and_greed_historical,
     cmc_crypto_fear_and_greed_latest,
     listings_latest,
     listings_new,
     trending_gainers_losers,
     trending_latest,
     trending_most_visited,
     market_pairs_latest,
     quotes_historical,
     quotes_latest,
     quotes_historical_k8s0,
     quotes_latest_d46k,
     market_pairs_latest_v2,
     ohlcv_historical_v2,
     ohlcv_latest_v2,
     price_performance_stats_v2,
     quotes_historical_v2,
     quotes_latest_v2,
     quotes_historical_v3,
     fcas_listings_latest_deprecated,
     fcas_quotes_latest_deprecated]"


section \<open>Properties of the catalogue\<close>

text \<open>
  The entry that the template writes into the \<^verbatim>\<open>params\<close> literal for a parameter: the
  parameter itself, or \<^verbatim>\<open>str(<name>).lower()\<close> when it is annotated \<^verbatim>\<open>bool\<close>.
\<close>

definition param_entry :: "string \<times> pytype \<times> pyval \<Rightarrow> string \<times> expr" where
  "param_entry p = (case p of (n, ty, d) \<Rightarrow> (n, if ty = TBool then StrLower n else Var n))"

definition follows_template :: "tool \<Rightarrow> bool" where
  "follows_template t \<longleftrightarrow>
     distinct (map fst (tool_sig t)) \<and> tool_params t = map param_entry (tool_sig t)"

text \<open>
  The value a parameter has in the dictionary literal: a \<^verbatim>\<open>bool\<close> parameter as the
  lowercase text of its value, any other parameter as its value.
\<close>

definition query_value :: "pytype \<Rightarrow> pyval \<Rightarrow> pyval" where
  "query_value ty v = (if ty = TBool then PStr (lower (py_str v)) else v)"

text \<open>
  Values of an annotation. An \<^verbatim>\<open>int\<close> is accepted where a \<^verbatim>\<open>float\<close> is declared (the
  source itself writes \<^verbatim>\<open>count: float = 10\<close>).
\<close>

fun has_type :: "pyval \<Rightarrow> pytype \<Rightarrow> bool" where
  "has_type v (TOptional ty) = (v = PNone \<or> has_type v ty)"
| "has_type (PStr s) TStr = True"
| "has_type (PInt i) TInt = True"
| "has_type (PInt i) TFloat = True"
| "has_type (PFloat r) TFloat = True"
| "has_type (PBool b) TBool = True"
| "has_type v ty = False"

text \<open>The annotations that occur in the catalogue.\<close>

definition plain_type :: "pytype \<Rightarrow> bool" where
  "plain_type ty \<longleftrightarrow>
     ty \<in> set [TStr, TInt, TFloat, TBool, TOptional TStr, TOptional TInt, TOptional TFloat]"

definition defaults_typed :: "tool \<Rightarrow> bool" where
  "defaults_typed t = list_all (\<lambda>(n, ty, d). plain_type ty \<and> has_type d ty) (tool_sig t)"

text \<open>An argument set whose supplied values have the types of the annotations.\<close>

definition well_typed :: "(string \<times> pytype \<times> pyval) list \<Rightarrow> kwargs \<Rightarrow> bool" where
  "well_typed sg kw =
     list_all (\<lambda>(n, ty, d). case kw n of None \<Rightarrow> True | Some v \<Rightarrow> has_type v ty) sg"

definition is_text :: "pyval \<Rightarrow> bool" where
  "is_text v = (case v of PStr s \<Rightarrow> True | _ \<Rightarrow> False)"

definition is_number :: "pyval \<Rightarrow> bool" where
  "is_number v = (case v of PInt i \<Rightarrow> True | PFloat r \<Rightarrow> True | _ \<Rightarrow> False)"

definition base_url :: string where
  "base_url = ''https://pro-api.coinmarketcap.com''"


section \<open>Stub upstreams\<close>

text \<open>Concrete environments and arguments, for running the handlers on.\<close>

definition bitcoin_body :: json where
  "bitcoin_body = JObj [(''data'', JObj [(''1'', JObj [(''name'', JStr ''Bitcoin'')])])]"

definition ok_upstream :: network where
  "ok_upstream rq =
     Responds \<lparr>status_code = 200, reason = ''OK'', resp_url = req_url rq,
               resp_body = Inr bitcoin_body\<rparr>"

definition timeout_upstream :: network where
  "timeout_upstream rq = Raises (PyExc Timeout ''Read timed out. (read timeout=30)'')"

definition not_found_upstream :: network where
  "not_found_upstream rq =
     Responds \<lparr>status_code = 404, reason = ''Not Found'', resp_url = req_url rq,
               resp_body = Inr (JObj [(''status'', JObj [(''error_code'', JInt 404)])])\<rparr>"

definition multiple_choices_upstream :: network where
  "multiple_choices_upstream rq =
     Responds \<lparr>status_code = 300, reason = ''Multiple Choices'', resp_url = req_url rq,
               resp_body = Inr (JObj [(''data'', JNull)])\<rparr>"

definition id_one :: kwargs where
  "id_one = [''id'' \<mapsto> PStr ''1'']"

definition start_and_flag :: kwargs where
  "start_and_flag = [''start'' \<mapsto> PInt 5, ''include_metals'' \<mapsto> PBool True]"




section \<open>Facts about the model\<close>

subsection \<open>Text\<close>

lemma lower_True: "lower ''True'' = ''true''"
  by code_simp

lemma lower_False: "lower ''False'' = ''false''"
  by code_simp

subsection \<open>The catalogue\<close>

lemmas tool_defs =
  coinmarketcap_id_map_def
  exchange_assets_def
  coinmarketcap_id_map_10a0_def
  coinmarketcap_id_map_0es7_def
  key_info_def
  postman_conversion_v1_def
  cmc_crypto_fear_and_greed_historical_def
  cmc_crypto_fear_and_greed_latest_def
  listings_latest_def
  listings_new_def
  trending_gainers_losers_def
  trending_latest_def
  trending_most_visited_def
  market_pairs_latest_def
  quotes_historical_def
  quotes_latest_def
  quotes_historical_k8s0_def
  quotes_latest_d46k_def
  market_pairs_latest_v2_def
  ohlcv_historical_v2_def
  ohlcv_latest_v2_def
  price_performance_stats_v2_def
  quotes_historical_v2_def
  quotes_latest_v2_def
  quotes_historical_v3_def
  fcas_listings_latest_deprecated_def
  fcas_quotes_latest_deprecated_def

lemma tools_follow_template: "list_all follows_template tools"
  by (simp add: tools_def tool_defs follows_template_def param_entry_def)

lemma tools_defaults_typed: "list_all defaults_typed tools"
  by (simp add: tools_def tool_defs defaults_typed_def plain_type_def)

lemma tools_url: "list_all (\<lambda>t. tool_url t = base_url @ tool_endpoint t) tools"
  by (simp add: tools_def tool_defs base_url_def)

lemma tool_follows_template: "t \<in> set tools \<Longrightarrow> follows_template t"
  using tools_follow_template by (simp add: list_all_iff)

lemma tool_defaults_typed: "t \<in> set tools \<Longrightarrow> defaults_typed t"
  using tools_defaults_typed by (simp add: list_all_iff)

lemma tool_url_endpoint: "t \<in> set tools \<Longrightarrow> tool_url t = base_url @ tool_endpoint t"
  using tools_url by (simp add: list_all_iff)

subsection \<open>The query parameters of a handler that follows the template\<close>

lemma bind_args_lookup:
  assumes "distinct (map fst sg)" and "(n, ty, d) \<in> set sg"
  shows "bind_args sg kw n = Some (arg_value kw n d)"
proof -
  let ?xs = "map (\<lambda>(n, ty, d). (n, arg_value kw n d)) sg"
  have "map fst ?xs = map fst sg"
    by (induction sg) auto
  with assms(1) have "distinct (map fst ?xs)"
    by (simp only:)
  moreover from assms(2) have "(n, arg_value kw n d) \<in> set ?xs"
    by force
  ultimately show ?thesis
    unfolding bind_args_def by (simp only: map_of_eq_Some_iff)
qed

lemma dict_literal_entries:
  assumes "\<forall>(n, ty, d) \<in> set ps. env n = Some (arg_value kw n d)"
  shows "dict_literal env (map param_entry ps) =
         Inr (map (\<lambda>(n, ty, d). (n, query_value ty (arg_value kw n d))) ps)"
  using assms by (induction ps) (auto simp: param_entry_def query_value_def)

lemma build_params_template:
  assumes "follows_template t"
  shows "build_params t kw =
         Inr (drop_none (map (\<lambda>(n, ty, d). (n, query_value ty (arg_value kw n d))) (tool_sig t)))"
proof -
  from assms have d: "distinct (map fst (tool_sig t))"
    and p: "tool_params t = map param_entry (tool_sig t)"
    by (simp_all add: follows_template_def)
  have "\<forall>(n, ty, d) \<in> set (tool_sig t).
          bind_args (tool_sig t) kw n = Some (arg_value kw n d)"
    using bind_args_lookup [OF d] by auto
  then show ?thesis
    unfolding build_params_def p by (simp add: dict_literal_entries)
qed

lemma build_params_total: "t \<in> set tools \<Longrightarrow> \<exists>q. build_params t kw = Inr q"
  by (simp add: build_params_template tool_follows_template)

lemma dict_literal_keys: "dict_literal env es = Inr d \<Longrightarrow> map fst d = map fst es"
  by (induction es arbitrary: d) (auto split: sum.splits)

lemma build_params_no_none: "build_params t kw = Inr q \<Longrightarrow> (k, PNone) \<notin> set q"
  by (auto simp: build_params_def drop_none_def split: sum.splits)

lemma build_params_keys:
  assumes "build_params t kw = Inr q"
  shows "set (map fst q) \<subseteq> set (map fst (tool_params t))"
proof -
  from assms obtain d
    where d: "dict_literal (bind_args (tool_sig t) kw) (tool_params t) = Inr d"
      and q: "q = drop_none d"
    by (auto simp: build_params_def split: sum.splits)
  have "set (map fst q) \<subseteq> set (map fst d)"
    unfolding q drop_none_def by auto
  also have "map fst d = map fst (tool_params t)"
    using d by (rule dict_literal_keys)
  finally show ?thesis .
qed

subsection \<open>One run of a handler\<close>

lemma handler_sent:
  assumes "build_params t kw = Inr q"
  shows "snd (tool_handler t api_key net kw) =
         [\<lparr>req_method = ''GET'', req_url = tool_url t, req_params = q,
           req_headers = auth_headers api_key, req_timeout = 30\<rparr>]"
  using assms
  by (simp add: tool_handler_def try_block_def requests_get_def response_json_def Let_def
      split: reply.splits option.splits sum.splits)

lemma handler_result:
  assumes "build_params t kw = Inr q"
  shows "fst (tool_handler t api_key net kw) =
         Inr (case net \<lparr>req_method = ''GET'', req_url = tool_url t, req_params = q,
                        req_headers = auth_headers api_key, req_timeout = 30\<rparr> of
                Raises e \<Rightarrow> error_envelope e (tool_endpoint t)
              | Responds r \<Rightarrow>
                  (case raise_for_status r of
                     Some e \<Rightarrow> error_envelope e (tool_endpoint t)
                   | None \<Rightarrow>
                       (case resp_body r of
                          Inl m \<Rightarrow> error_envelope (PyExc JSONDecodeError m) (tool_endpoint t)
                        | Inr j \<Rightarrow> j)))"
  using assms
  by (simp add: tool_handler_def try_block_def requests_get_def response_json_def
      split: reply.splits option.splits sum.splits)

lemma handler_normalization_error:
  assumes "build_params t kw = Inl e"
  shows "tool_handler t api_key net kw = (Inr (error_envelope e (tool_endpoint t)), [])"
  using assms by (simp add: tool_handler_def try_block_def)

lemma query_value_none:
  assumes "has_type d ty"
  shows "(query_value ty d = PNone) = (d = PNone)"
  using assms by (cases d) (auto simp: query_value_def)

lemma arg_value_empty: "arg_value Map.empty n d = d"
  by (simp add: arg_value_def)

lemma build_params_key_info: "build_params key_info Map.empty = Inr []"
  by (simp add: build_params_def key_info_def drop_none_def)

subsection \<open>Typed arguments\<close>

lemma map_of_drop_none:
  assumes "distinct (map fst xs)" and "(n, v) \<in> set xs"
  shows "map_of (drop_none xs) n = (if v = PNone then None else Some v)"
  using assms
proof (induction xs)
  case Nil
  then show ?case by simp
next
  case (Cons x xs)
  obtain k w where x: "x = (k, w)" by (cases x)
  show ?case
  proof (cases "k = n")
    case True
    with Cons.prems x have vw: "v = w" and notin: "n \<notin> fst ` set xs"
      by (auto simp: image_iff)
    from notin have "n \<notin> fst ` set (drop_none xs)"
      by (auto simp: drop_none_def)
    then have "map_of (drop_none xs) n = None"
      by (simp add: map_of_eq_None_iff)
    with True x vw show ?thesis
      by (simp add: drop_none_def)
  next
    case False
    with Cons.prems x have "distinct (map fst xs)" and "(n, v) \<in> set xs"
      by auto
    then have "map_of (drop_none xs) n = (if v = PNone then None else Some v)"
      by (rule Cons.IH)
    with False x show ?thesis
      by (simp add: drop_none_def)
  qed
qed

lemma query_value_kind:
  assumes "plain_type ty" and "has_type a ty" and "query_value ty a \<noteq> PNone"
  shows "is_text (query_value ty a) \<or> is_number (query_value ty a)"
  using assms unfolding plain_type_def
  by (cases a) (auto simp: query_value_def is_text_def is_number_def)

lemma query_value_typed:
  assumes "plain_type ty" and "has_type a ty"
  shows "(if query_value ty a = PNone then None else Some (query_value ty a)) =
         (if ty = TBool then Some (PStr (if a = PBool True then ''true'' else ''false''))
          else if a = PNone then None else Some a)"
  using assms unfolding plain_type_def
  by (cases a) (auto simp: query_value_def lower_True lower_False)

lemma resolved_typed:
  assumes "t \<in> set tools" and "well_typed (tool_sig t) kw" and "(n, ty, d) \<in> set (tool_sig t)"
  shows "plain_type ty \<and> has_type (arg_value kw n d) ty"
proof -
  from tool_defaults_typed [OF assms(1)] assms(3) have "plain_type ty" and "has_type d ty"
    by (auto simp: defaults_typed_def list_all_iff)
  moreover from assms(2,3) have "case kw n of None \<Rightarrow> True | Some v \<Rightarrow> has_type v ty"
    by (auto simp: well_typed_def list_all_iff)
  ultimately show ?thesis
    by (auto simp: arg_value_def split: option.splits)
qed

subsection \<open>Some runs\<close>

lemma in_tools_0es7: "coinmarketcap_id_map_0es7 \<in> set tools"
  by (simp add: tools_def)

lemma build_params_0es7:
  "build_params coinmarketcap_id_map_0es7 start_and_flag =
     Inr [(''start'', PInt 5), (''sort'', PStr ''id''), (''include_metals'', PStr ''true'')]"
  by (simp add: build_params_template tool_follows_template in_tools_0es7)
     (simp add: coinmarketcap_id_map_0es7_def start_and_flag_def arg_value_def query_value_def
        drop_none_def lower_True)

lemma well_typed_0es7: "well_typed (tool_sig coinmarketcap_id_map_0es7) start_and_flag"
  by (simp add: well_typed_def coinmarketcap_id_map_0es7_def start_and_flag_def)

lemma in_tools_quotes_latest: "quotes_latest \<in> set tools"
  by (simp add: tools_def)

lemma build_params_quotes_latest:
  "build_params quotes_latest id_one =
     Inr [(''id'', PStr ''1''),
          (''aux'', PStr ''num_market_pairs,traffic_score,rank,exchange_score,liquidity_score,effective_liquidity_24h'')]"
  by (simp add: build_params_template tool_follows_template in_tools_quotes_latest)
     (simp add: quotes_latest_def id_one_def arg_value_def query_value_def drop_none_def)

lemma dec_nat_404: "dec_nat 404 = ''404''"
  by code_simp

lemma default_query_value:
  assumes "has_type d ty"
  shows "query_value ty d =
         (if ty = TBool then PStr (if d = PBool True then ''true'' else ''false'') else d)"
  using assms by (cases d) (auto simp: query_value_def lower_True lower_False)

subsection \<open>Redirects\<close>






section \<open>The claims\<close>

text \<open>
  C1. Whatever exception leaves the \<^verbatim>\<open>try\<close> block of a handler, the handler returns the
  dictionary with the two keys \<^verbatim>\<open>"error"\<close> (the text of the exception) and \<^verbatim>\<open>"endpoint"\<close>,
  and the handler itself never ends in an exception. The exceptions of the four stages
  are all of this kind: one raised while the query is built, one raised by
  \<^verbatim>\<open>requests.get\<close>, one raised by \<^verbatim>\<open>raise_for_status\<close>, and one raised by
  \<^verbatim>\<open>response.json()\<close>. This holds of the body for any signature, URL and literal, so of
  each of the 27 handlers.
\<close>

theorem handler_catches_every_exception:
  "(\<exists>v. fst (tool_handler t api_key net kw) = Inr v) \<and>
   (\<forall>e. fst (try_block t api_key net kw []) = Inl e \<longrightarrow>
      fst (tool_handler t api_key net kw) =
        Inr (JObj [(''error'', JStr (exc_str e)), (''endpoint'', JStr (tool_endpoint t))])) \<and>
   (\<forall>e. build_params t kw = Inl e \<longrightarrow>
      fst (try_block t api_key net kw []) = Inl e) \<and>
   (\<forall>rq e. snd (tool_handler t api_key net kw) = [rq] \<and> net rq = Raises e \<longrightarrow>
      fst (try_block t api_key net kw []) = Inl e) \<and>
   (\<forall>rq r e. snd (tool_handler t api_key net kw) = [rq] \<and> net rq = Responds r \<and>
        raise_for_status r = Some e \<longrightarrow>
      fst (try_block t api_key net kw []) = Inl e) \<and>
   (\<forall>rq r m. snd (tool_handler t api_key net kw) = [rq] \<and> net rq = Responds r \<and>
        raise_for_status r = None \<and> resp_body r = Inl m \<longrightarrow>
      fst (try_block t api_key net kw []) = Inl (PyExc JSONDecodeError m))"
proof (intro conjI allI impI)
  show "\<exists>v. fst (tool_handler t api_key net kw) = Inr v"
    by (cases "try_block t api_key net kw []" rule: prod.exhaust)
       (auto simp: tool_handler_def split: sum.splits)
next
  fix e assume "fst (try_block t api_key net kw []) = Inl e"
  then show "fst (tool_handler t api_key net kw) =
        Inr (JObj [(''error'', JStr (exc_str e)), (''endpoint'', JStr (tool_endpoint t))])"
    by (cases "try_block t api_key net kw []" rule: prod.exhaust)
       (auto simp: tool_handler_def error_envelope_def split: sum.splits)
next
  fix e assume "build_params t kw = Inl e"
  then show "fst (try_block t api_key net kw []) = Inl e"
    by (simp add: try_block_def)
next
  fix rq e
  assume a: "snd (tool_handler t api_key net kw) = [rq] \<and> net rq = Raises e"
  show "fst (try_block t api_key net kw []) = Inl e"
  proof (cases "build_params t kw")
    case (Inl x)
    with a show ?thesis by (simp add: handler_normalization_error)
  next
    case (Inr q)
    with a show ?thesis
      by (auto simp: handler_sent try_block_def requests_get_def)
  qed
next
  fix rq r e
  assume a: "snd (tool_handler t api_key net kw) = [rq] \<and> net rq = Responds r \<and>
        raise_for_status r = Some e"
  show "fst (try_block t api_key net kw []) = Inl e"
  proof (cases "build_params t kw")
    case (Inl x)
    with a show ?thesis by (simp add: handler_normalization_error)
  next
    case (Inr q)
    with a show ?thesis
      by (auto simp: handler_sent try_block_def requests_get_def)
  qed
next
  fix rq r m
  assume a: "snd (tool_handler t api_key net kw) = [rq] \<and> net rq = Responds r \<and>
        raise_for_status r = None \<and> resp_body r = Inl m"
  show "fst (try_block t api_key net kw []) = Inl (PyExc JSONDecodeError m)"
  proof (cases "build_params t kw")
    case (Inl x)
    with a show ?thesis by (simp add: handler_normalization_error)
  next
    case (Inr q)
    with a show ?thesis
      by (auto simp: handler_sent try_block_def requests_get_def response_json_def)
  qed
qed

theorem handler_catches_every_exception_witness:
  "fst (try_block key_info None timeout_upstream Map.empty []) =
     Inl (PyExc Timeout ''Read timed out. (read timeout=30)'') \<and>
   fst (tool_handler key_info None timeout_upstream Map.empty) =
     Inr (JObj [(''error'', JStr ''Read timed out. (read timeout=30)''),
                (''endpoint'', JStr ''/v1/key/info'')])"
proof -
  have h: "fst (try_block key_info None timeout_upstream Map.empty []) =
     Inl (PyExc Timeout ''Read timed out. (read timeout=30)'')"
    by (simp add: try_block_def build_params_key_info requests_get_def timeout_upstream_def)
  with handler_catches_every_exception [of key_info None timeout_upstream Map.empty]
  have "fst (tool_handler key_info None timeout_upstream Map.empty) =
     Inr (JObj [(''error'', JStr (exc_str (PyExc Timeout ''Read timed out. (read timeout=30)''))),
                (''endpoint'', JStr (tool_endpoint key_info))])"
    by blast
  then have "fst (tool_handler key_info None timeout_upstream Map.empty) =
     Inr (JObj [(''error'', JStr ''Read timed out. (read timeout=30)''),
                (''endpoint'', JStr ''/v1/key/info'')])"
    by (simp add: key_info_def)
  with h show ?thesis ..
qed

text \<open>
  C2. Called with no argument, every handler builds a query holding exactly the
  parameters that have a default other than \<^verbatim>\<open>None\<close>, in the order of the signature, and
  no other key; a parameter whose default is \<^verbatim>\<open>None\<close> is not in the query. Each
  parameter has its declared default as value; for a \<^verbatim>\<open>bool\<close> parameter that is the text
  \<^verbatim>\<open>"true"\<close> for the default \<^verbatim>\<open>True\<close> and \<^verbatim>\<open>"false"\<close> for the default \<^verbatim>\<open>False\<close>. For
  \<^verbatim>\<open>coinmarketcap_id_map\<close> this leaves \<^verbatim>\<open>limit\<close> and \<^verbatim>\<open>symbol\<close> out and keeps \<^verbatim>\<open>start\<close> and
  \<^verbatim>\<open>sort\<close> with their defaults; for \<^verbatim>\<open>coinmarketcap_id_map_0es7\<close> the query has
  \<^verbatim>\<open>include_metals\<close> as \<^verbatim>\<open>"false"\<close>.
\<close>

theorem defaults_only_query:
  assumes "t \<in> set tools"
  shows "build_params t Map.empty =
         Inr (map (\<lambda>(n, ty, d).
                     (n, if ty = TBool then PStr (if d = PBool True then ''true'' else ''false'')
                         else d))
                  (filter (\<lambda>(n, ty, d). d \<noteq> PNone) (tool_sig t)))"
proof -
  have ty: "\<forall>(n, ty, d) \<in> set (tool_sig t). has_type d ty"
    using tool_defaults_typed [OF assms] by (auto simp: defaults_typed_def list_all_iff)
  have "drop_none (map (\<lambda>(n, ty, d). (n, query_value ty d)) sg) =
        map (\<lambda>(n, ty, d).
               (n, if ty = TBool then PStr (if d = PBool True then ''true'' else ''false'')
                   else d))
            (filter (\<lambda>(n, ty, d). d \<noteq> PNone) sg)"
    if "\<forall>(n, ty, d) \<in> set sg. has_type d ty" for sg
    using that
  proof (induction sg)
    case Nil
    then show ?case by (simp add: drop_none_def)
  next
    case (Cons p sg)
    obtain n ty d where p: "p = (n, ty, d)" by (cases p)
    with Cons.prems have h: "has_type d ty" by simp
    from Cons have ih: "drop_none (map (\<lambda>(n, ty, d). (n, query_value ty d)) sg) =
        map (\<lambda>(n, ty, d).
               (n, if ty = TBool then PStr (if d = PBool True then ''true'' else ''false'')
                   else d))
            (filter (\<lambda>(n, ty, d). d \<noteq> PNone) sg)"
      by simp
    have "drop_none (map (\<lambda>(n, ty, d). (n, query_value ty d)) (p # sg)) =
          (if query_value ty d = PNone then [] else [(n, query_value ty d)]) @
          drop_none (map (\<lambda>(n, ty, d). (n, query_value ty d)) sg)"
      by (simp add: p drop_none_def)
    also have "(if query_value ty d = PNone then [] else [(n, query_value ty d)]) =
          (if d = PNone then []
           else [(n, if ty = TBool then PStr (if d = PBool True then ''true'' else ''false'')
                     else d)])"
      using query_value_none [OF h] default_query_value [OF h] by simp
    finally show ?case
      by (simp add: ih p)
  qed
  with ty show ?thesis
    by (simp add: build_params_template tool_follows_template [OF assms] arg_value_empty)
qed

theorem defaults_only_query_witness:
  "build_params coinmarketcap_id_map Map.empty =
     Inr [(''listing_status'', PStr ''active''), (''start'', PInt 1), (''sort'', PStr ''id''),
          (''aux'', PStr ''platform,first_historical_data,last_historical_data,is_active'')] \<and>
   build_params coinmarketcap_id_map_0es7 Map.empty =
     Inr [(''start'', PInt 1), (''sort'', PStr ''id''), (''include_metals'', PStr ''false'')]"
proof -
  have "build_params coinmarketcap_id_map Map.empty =
     Inr [(''listing_status'', PStr ''active''), (''start'', PInt 1), (''sort'', PStr ''id''),
          (''aux'', PStr ''platform,first_historical_data,last_historical_data,is_active'')]"
    using defaults_only_query [of coinmarketcap_id_map]
    by (simp add: tools_def coinmarketcap_id_map_def)
  moreover have "build_params coinmarketcap_id_map_0es7 Map.empty =
     Inr [(''start'', PInt 1), (''sort'', PStr ''id''), (''include_metals'', PStr ''false'')]"
    using defaults_only_query [OF in_tools_0es7]
    by (simp add: coinmarketcap_id_map_0es7_def)
  ultimately show ?thesis ..
qed

text \<open>
  C3, as stated, fails: the handlers leave numbers as they are. Called with
  \<^verbatim>\<open>start=5, include_metals=True\<close>, \<^verbatim>\<open>coinmarketcap_id_map_0es7\<close> builds a query whose
  \<^verbatim>\<open>start\<close> is the integer 5, not text.
\<close>

theorem native_number_in_query_counterexample:
  "build_params coinmarketcap_id_map_0es7 start_and_flag =
     Inr [(''start'', PInt 5), (''sort'', PStr ''id''), (''include_metals'', PStr ''true'')] \<and>
   \<not> is_text (PInt 5)"
  by (simp add: build_params_0es7 is_text_def)

text \<open>
  C3, amended. For every handler and every argument set whose values have the annotated
  types, every value of the query is text or a number, so never a boolean and never
  \<^verbatim>\<open>None\<close>; a parameter annotated \<^verbatim>\<open>bool\<close> is in the query as the text \<^verbatim>\<open>"true"\<close> or
  \<^verbatim>\<open>"false"\<close>; any other parameter is in the query as the very value it has (a string as
  a string, a number as a number), unless that value is \<^verbatim>\<open>None\<close>.
\<close>

theorem query_values_text_or_number:
  assumes "t \<in> set tools" and "well_typed (tool_sig t) kw"
  shows "\<exists>q. build_params t kw = Inr q \<and>
           list_all (\<lambda>(k, v). is_text v \<or> is_number v) q \<and>
           list_all (\<lambda>(n, ty, d). map_of q n =
               (if ty = TBool
                then Some (PStr (if arg_value kw n d = PBool True then ''true'' else ''false''))
                else if arg_value kw n d = PNone then None
                else Some (arg_value kw n d))) (tool_sig t)"
proof -
  let ?g = "\<lambda>(n, ty, d). (n, query_value ty (arg_value kw n d))"
  let ?xs = "map ?g (tool_sig t)"
  let ?q = "drop_none ?xs"
  have q: "build_params t kw = Inr ?q"
    by (rule build_params_template) (rule tool_follows_template [OF assms(1)])
  have fst_xs: "map fst ?xs = map fst (tool_sig t)"
    by (induction "tool_sig t") (auto simp: case_prod_unfold)
  have "distinct (map fst (tool_sig t))"
    using tool_follows_template [OF assms(1)] by (simp add: follows_template_def)
  with fst_xs have dist: "distinct (map fst ?xs)"
    by (simp only:)
  have a: "is_text v \<or> is_number v" if "(k, v) \<in> set ?q" for k v
  proof -
    from that have "v \<noteq> PNone" and "(k, v) \<in> set ?xs"
      by (auto simp: drop_none_def)
    then obtain n ty d where m: "(n, ty, d) \<in> set (tool_sig t)"
      and v: "v = query_value ty (arg_value kw n d)"
      by auto
    from resolved_typed [OF assms m] have "plain_type ty"
      and "has_type (arg_value kw n d) ty"
      by simp_all
    moreover from \<open>v \<noteq> PNone\<close> have "query_value ty (arg_value kw n d) \<noteq> PNone"
      by (simp add: v)
    ultimately show ?thesis
      unfolding v by (rule query_value_kind)
  qed
  have b: "map_of ?q n =
      (if ty = TBool
       then Some (PStr (if arg_value kw n d = PBool True then ''true'' else ''false''))
       else if arg_value kw n d = PNone then None
       else Some (arg_value kw n d))" if m: "(n, ty, d) \<in> set (tool_sig t)" for n ty d
  proof -
    from m have "(n, query_value ty (arg_value kw n d)) \<in> set ?xs"
      by force
    with dist have "map_of ?q n =
        (if query_value ty (arg_value kw n d) = PNone then None
         else Some (query_value ty (arg_value kw n d)))"
      by (rule map_of_drop_none)
    also have "\<dots> = (if ty = TBool
       then Some (PStr (if arg_value kw n d = PBool True then ''true'' else ''false''))
       else if arg_value kw n d = PNone then None
       else Some (arg_value kw n d))"
      using resolved_typed [OF assms m] by (intro query_value_typed) auto
    finally show ?thesis .
  qed
  from a have "list_all (\<lambda>(k, v). is_text v \<or> is_number v) ?q"
    by (auto simp: list_all_iff)
  moreover from b have "list_all (\<lambda>(n, ty, d). map_of ?q n =
               (if ty = TBool
                then Some (PStr (if arg_value kw n d = PBool True then ''true'' else ''false''))
                else if arg_value kw n d = PNone then None
                else Some (arg_value kw n d))) (tool_sig t)"
    by (auto simp: list_all_iff)
  ultimately show ?thesis
    using q by blast
qed

theorem query_values_text_or_number_witness:
  "well_typed (tool_sig coinmarketcap_id_map_0es7) start_and_flag \<and>
   (\<exists>q. build_params coinmarketcap_id_map_0es7 start_and_flag = Inr q \<and>
      q = [(''start'', PInt 5), (''sort'', PStr ''id''), (''include_metals'', PStr ''true'')] \<and>
      list_all (\<lambda>(k, v). is_text v \<or> is_number v) q \<and>
      map_of q ''include_metals'' = Some (PStr ''true''))"
proof -
  from query_values_text_or_number [OF in_tools_0es7 well_typed_0es7]
  obtain q where q: "build_params coinmarketcap_id_map_0es7 start_and_flag = Inr q"
    and t: "list_all (\<lambda>(k, v). is_text v \<or> is_number v) q"
    by blast
  from q have "q = [(''start'', PInt 5), (''sort'', PStr ''id''), (''include_metals'', PStr ''true'')]"
    by (simp add: build_params_0es7)
  with q t well_typed_0es7 show ?thesis
    by simp
qed

text \<open>
  C4. For every handler and every argument set, the query is built without an exception,
  no value in it is \<^verbatim>\<open>None\<close>, and each of its keys is the name of a parameter of the
  handler's signature.
\<close>

theorem query_has_no_none_and_only_declared_names:
  assumes "t \<in> set tools"
  shows "\<exists>q. build_params t kw = Inr q \<and>
             PNone \<notin> snd ` set q \<and>
             fst ` set q \<subseteq> fst ` set (tool_sig t)"
proof -
  from build_params_total [OF assms] obtain q where q: "build_params t kw = Inr q"
    by blast
  have "PNone \<notin> snd ` set q"
    using build_params_no_none [OF q] by auto
  moreover have "map fst (tool_params t) = map fst (tool_sig t)"
    using tool_follows_template [OF assms]
    by (simp add: follows_template_def param_entry_def case_prod_unfold comp_def)
  with build_params_keys [OF q] have "fst ` set q \<subseteq> fst ` set (tool_sig t)"
    by simp
  ultimately show ?thesis
    using q by blast
qed

theorem query_has_no_none_and_only_declared_names_witness:
  "\<exists>q. build_params exchange_assets [''id'' \<mapsto> PNone] = Inr q \<and>
       PNone \<notin> snd ` set q \<and> fst ` set q \<subseteq> fst ` set (tool_sig exchange_assets)"
  using query_has_no_none_and_only_declared_names [of exchange_assets "[''id'' \<mapsto> PNone]"]
  by (simp add: tools_def)

text \<open>
  C5, as stated, fails: \<^verbatim>\<open>raise_for_status\<close> raises for the statuses 400 to 599 only. A
  response with status 300 and a JSON body is returned by \<^verbatim>\<open>key_info\<close> as its result.
\<close>

theorem status_300_returned_as_success_counterexample:
  "multiple_choices_upstream
     \<lparr>req_method = ''GET'', req_url = ''https://pro-api.coinmarketcap.com/v1/key/info'',
      req_params = [], req_headers = [], req_timeout = 30\<rparr> =
     Responds \<lparr>status_code = 300, reason = ''Multiple Choices'',
               resp_url = ''https://pro-api.coinmarketcap.com/v1/key/info'',
               resp_body = Inr (JObj [(''data'', JNull)])\<rparr> \<and>
   tool_handler key_info None multiple_choices_upstream Map.empty =
     (Inr (JObj [(''data'', JNull)]),
      [\<lparr>req_method = ''GET'', req_url = ''https://pro-api.coinmarketcap.com/v1/key/info'',
        req_params = [], req_headers = [], req_timeout = 30\<rparr>])"
proof -
  have u: "tool_url key_info = ''https://pro-api.coinmarketcap.com/v1/key/info''"
    by (simp add: key_info_def)
  have a: "auth_headers None = []"
    by (simp add: auth_headers_def)
  have "fst (tool_handler key_info None multiple_choices_upstream Map.empty) =
        Inr (JObj [(''data'', JNull)])"
    by (simp add: handler_result [OF build_params_key_info] multiple_choices_upstream_def
        raise_for_status_def)
  moreover have "snd (tool_handler key_info None multiple_choices_upstream Map.empty) =
      [\<lparr>req_method = ''GET'', req_url = ''https://pro-api.coinmarketcap.com/v1/key/info'',
        req_params = [], req_headers = [], req_timeout = 30\<rparr>]"
    by (simp add: handler_sent [OF build_params_key_info] u a)
  ultimately show ?thesis
    by (simp add: multiple_choices_upstream_def prod_eq_iff)
qed

text \<open>
  C5, amended. For every handler, when the upstream answers the request with a status
  from 400 to 599, the handler returns the error dictionary; its \<^verbatim>\<open>"error"\<close> is the text of
  the \<^verbatim>\<open>HTTPError\<close> that \<^verbatim>\<open>raise_for_status\<close> raises, which carries the status, the reason
  and the URL; the body of the response is not looked at.
\<close>

theorem client_and_server_errors_give_envelope:
  assumes "t \<in> set tools"
  shows "\<exists>rq. snd (tool_handler t api_key net kw) = [rq] \<and>
           (\<forall>r. net rq = Responds r \<and> 400 \<le> status_code r \<and> status_code r < 600 \<longrightarrow>
              fst (tool_handler t api_key net kw) =
                Inr (JObj [(''error'',
                            JStr (dec_nat (status_code r) @
                                  (if status_code r < 500 then '' Client Error: ''
                                   else '' Server Error: '') @
                                  reason r @ '' for url: '' @ resp_url r)),
                           (''endpoint'', JStr (tool_endpoint t))]))"
proof -
  from build_params_total [OF assms] obtain q where q: "build_params t kw = Inr q"
    by blast
  let ?rq = "\<lparr>req_method = ''GET'', req_url = tool_url t, req_params = q,
              req_headers = auth_headers api_key, req_timeout = 30\<rparr>"
  have "snd (tool_handler t api_key net kw) = [?rq]"
    by (rule handler_sent [OF q])
  moreover have "fst (tool_handler t api_key net kw) =
        Inr (JObj [(''error'',
                    JStr (dec_nat (status_code r) @
                          (if status_code r < 500 then '' Client Error: ''
                           else '' Server Error: '') @
                          reason r @ '' for url: '' @ resp_url r)),
                   (''endpoint'', JStr (tool_endpoint t))])"
    if "net ?rq = Responds r \<and> 400 \<le> status_code r \<and> status_code r < 600" for r
    using that
    by (simp add: handler_result [OF q] raise_for_status_def error_envelope_def)
  ultimately show ?thesis
    by blast
qed

theorem client_and_server_errors_give_envelope_witness:
  "\<exists>rq. snd (tool_handler key_info None not_found_upstream Map.empty) = [rq] \<and>
     fst (tool_handler key_info None not_found_upstream Map.empty) =
       Inr (JObj [(''error'',
                   JStr ''404 Client Error: Not Found for url: https://pro-api.coinmarketcap.com/v1/key/info''),
                  (''endpoint'', JStr ''/v1/key/info'')])"
proof -
  from client_and_server_errors_give_envelope [of key_info None not_found_upstream Map.empty]
  obtain rq where s: "snd (tool_handler key_info None not_found_upstream Map.empty) = [rq]"
    and r: "\<forall>r. not_found_upstream rq = Responds r \<and> 400 \<le> status_code r \<and>
              status_code r < 600 \<longrightarrow>
              fst (tool_handler key_info None not_found_upstream Map.empty) =
                Inr (JObj [(''error'',
                            JStr (dec_nat (status_code r) @
                                  (if status_code r < 500 then '' Client Error: ''
                                   else '' Server Error: '') @
                                  reason r @ '' for url: '' @ resp_url r)),
                           (''endpoint'', JStr (tool_endpoint key_info))])"
    by (auto simp: tools_def)
  have "snd (tool_handler key_info None not_found_upstream Map.empty) =
      [\<lparr>req_method = ''GET'', req_url = tool_url key_info, req_params = [],
        req_headers = auth_headers None, req_timeout = 30\<rparr>]"
    by (rule handler_sent [OF build_params_key_info])
  with s have "req_url rq = tool_url key_info"
    by auto
  then have u: "req_url rq = ''https://pro-api.coinmarketcap.com/v1/key/info''"
    by (simp add: key_info_def)
  let ?r = "\<lparr>status_code = 404, reason = ''Not Found'', resp_url = req_url rq,
             resp_body = Inr (JObj [(''status'', JObj [(''error_code'', JInt 404)])])\<rparr>"
  have "not_found_upstream rq = Responds ?r \<and> 400 \<le> status_code ?r \<and> status_code ?r < 600"
    by (simp add: not_found_upstream_def)
  with r have "fst (tool_handler key_info None not_found_upstream Map.empty) =
                Inr (JObj [(''error'',
                            JStr (dec_nat (status_code ?r) @
                                  (if status_code ?r < 500 then '' Client Error: ''
                                   else '' Server Error: '') @
                                  reason ?r @ '' for url: '' @ resp_url ?r)),
                           (''endpoint'', JStr (tool_endpoint key_info))])"
    by blast
  then have "fst (tool_handler key_info None not_found_upstream Map.empty) =
       Inr (JObj [(''error'',
                   JStr ''404 Client Error: Not Found for url: https://pro-api.coinmarketcap.com/v1/key/info''),
                  (''endpoint'', JStr ''/v1/key/info'')])"
    by (simp add: dec_nat_404 u key_info_def)
  with s show ?thesis
    by blast
qed

text \<open>
  C6. Every handler sends its request with the timeout 30, and when \<^verbatim>\<open>requests.get\<close>
  raises (a timeout, a connection error or any other failure of the transport), the
  handler returns the error dictionary with the text of that exception.
\<close>

theorem timeout_30_and_transport_failure_gives_envelope:
  assumes "t \<in> set tools"
  shows "\<exists>rq. snd (tool_handler t api_key net kw) = [rq] \<and> req_timeout rq = 30 \<and>
           (\<forall>e. net rq = Raises e \<longrightarrow>
              fst (tool_handler t api_key net kw) =
                Inr (JObj [(''error'', JStr (exc_str e)),
                           (''endpoint'', JStr (tool_endpoint t))]))"
proof -
  from build_params_total [OF assms] obtain q where q: "build_params t kw = Inr q"
    by blast
  let ?rq = "\<lparr>req_method = ''GET'', req_url = tool_url t, req_params = q,
              req_headers = auth_headers api_key, req_timeout = 30\<rparr>"
  have "snd (tool_handler t api_key net kw) = [?rq]"
    by (rule handler_sent [OF q])
  moreover have "req_timeout ?rq = 30"
    by simp
  moreover have "fst (tool_handler t api_key net kw) =
        Inr (JObj [(''error'', JStr (exc_str e)), (''endpoint'', JStr (tool_endpoint t))])"
    if "net ?rq = Raises e" for e
    using that by (simp add: handler_result [OF q] error_envelope_def)
  ultimately show ?thesis
    by blast
qed

theorem timeout_30_and_transport_failure_gives_envelope_witness:
  "\<exists>rq. snd (tool_handler quotes_latest (Some ''k1'') timeout_upstream id_one) = [rq] \<and>
     req_timeout rq = 30 \<and>
     fst (tool_handler quotes_latest (Some ''k1'') timeout_upstream id_one) =
       Inr (JObj [(''error'', JStr ''Read timed out. (read timeout=30)''),
                  (''endpoint'', JStr ''/v1/exchange/quotes/latest'')])"
proof -
  from timeout_30_and_transport_failure_gives_envelope
    [OF in_tools_quotes_latest, of "Some ''k1''" timeout_upstream id_one]
  obtain rq where s: "snd (tool_handler quotes_latest (Some ''k1'') timeout_upstream id_one) = [rq]"
    and t: "req_timeout rq = 30"
    and r: "\<forall>e. timeout_upstream rq = Raises e \<longrightarrow>
              fst (tool_handler quotes_latest (Some ''k1'') timeout_upstream id_one) =
                Inr (JObj [(''error'', JStr (exc_str e)),
                           (''endpoint'', JStr (tool_endpoint quotes_latest))])"
    by blast
  have "timeout_upstream rq = Raises (PyExc Timeout ''Read timed out. (read timeout=30)'')"
    by (simp add: timeout_upstream_def)
  with r have "fst (tool_handler quotes_latest (Some ''k1'') timeout_upstream id_one) =
                Inr (JObj [(''error'',
                            JStr (exc_str (PyExc Timeout ''Read timed out. (read timeout=30)''))),
                           (''endpoint'', JStr (tool_endpoint quotes_latest))])"
    by blast
  then have "fst (tool_handler quotes_latest (Some ''k1'') timeout_upstream id_one) =
       Inr (JObj [(''error'', JStr ''Read timed out. (read timeout=30)''),
                  (''endpoint'', JStr ''/v1/exchange/quotes/latest'')])"
    by (simp add: quotes_latest_def)
  with s t show ?thesis
    by blast
qed

text \<open>
  C7. When the resolved key is a string that is not empty, every handler sends a GET
  request to its own URL, the fixed host followed by the handler's path, and the
  request's headers are exactly \<^verbatim>\<open>X-CMC_PRO_API_KEY\<close> with the key, \<^verbatim>\<open>Authorization\<close> with
  \<^verbatim>\<open>Bearer\<close> and the key, and \<^verbatim>\<open>X-API-Key\<close> with the key.
\<close>

theorem credential_under_three_headers:
  assumes "t \<in> set tools" and "api_key = Some k" and "k \<noteq> []"
  shows "\<exists>q. snd (tool_handler t api_key net kw) =
           [\<lparr>req_method = ''GET'', req_url = base_url @ tool_endpoint t, req_params = q,
             req_headers =
               [(''X-CMC_PRO_API_KEY'', k), (''Authorization'', ''Bearer '' @ k),
                (''X-API-Key'', k)],
             req_timeout = 30\<rparr>]"
proof -
  from build_params_total [OF assms(1)] obtain q where q: "build_params t kw = Inr q"
    by blast
  have h: "auth_headers api_key =
      [(''X-CMC_PRO_API_KEY'', k), (''Authorization'', ''Bearer '' @ k), (''X-API-Key'', k)]"
    using assms(2,3) by (simp add: auth_headers_def)
  have u: "tool_url t = base_url @ tool_endpoint t"
    using assms(1) by (rule tool_url_endpoint)
  show ?thesis
    using handler_sent [OF q, of api_key net] unfolding h u by blast
qed

theorem credential_under_three_headers_witness:
  "\<exists>q. snd (tool_handler key_info (Some ''k1'') ok_upstream Map.empty) =
     [\<lparr>req_method = ''GET'', req_url = base_url @ tool_endpoint key_info,
       req_params = q,
       req_headers =
         [(''X-CMC_PRO_API_KEY'', ''k1''), (''Authorization'', ''Bearer '' @ ''k1''),
          (''X-API-Key'', ''k1'')],
       req_timeout = 30\<rparr>]"
  using credential_under_three_headers [of key_info "Some ''k1''" "''k1''" ok_upstream Map.empty]
  by (simp add: tools_def)




text \<open>
  C9, as stated, fails: the default of \<^verbatim>\<open>aux\<close> in \<^verbatim>\<open>quotes_latest\<close> is not \<^verbatim>\<open>"rank"\<close>, so the
  query for \<^verbatim>\<open>id="1"\<close> is not \<^verbatim>\<open>{id: "1", aux: "rank"}\<close>.
\<close>

theorem quotes_latest_aux_rank_counterexample:
  "build_params quotes_latest id_one \<noteq> Inr [(''id'', PStr ''1''), (''aux'', PStr ''rank'')]"
  by (simp add: build_params_quotes_latest)

text \<open>
  C9, amended. \<^verbatim>\<open>quotes_latest\<close> called with \<^verbatim>\<open>id="1"\<close> and nothing else builds the query
  of \<^verbatim>\<open>id\<close> and the declared default of \<^verbatim>\<open>aux\<close>,
  \<^verbatim>\<open>"num_market_pairs,traffic_score,rank,exchange_score,liquidity_score,effective_liquidity_24h"\<close>,
  and nothing else; and when the upstream answers that request with a 2xx status and the
  JSON \<^verbatim>\<open>{"data": {"1": {"name": "Bitcoin"}}}\<close>, the handler returns exactly that value.
\<close>

theorem quotes_latest_scenario:
  "build_params quotes_latest id_one =
     Inr [(''id'', PStr ''1''),
          (''aux'', PStr ''num_market_pairs,traffic_score,rank,exchange_score,liquidity_score,effective_liquidity_24h'')] \<and>
   (\<forall>r. net \<lparr>req_method = ''GET'',
              req_url = ''https://pro-api.coinmarketcap.com/v1/exchange/quotes/latest'',
              req_params =
                [(''id'', PStr ''1''),
                 (''aux'', PStr ''num_market_pairs,traffic_score,rank,exchange_score,liquidity_score,effective_liquidity_24h'')],
              req_headers = auth_headers api_key, req_timeout = 30\<rparr> = Responds r \<and>
        200 \<le> status_code r \<and> status_code r < 300 \<and> resp_body r = Inr bitcoin_body \<longrightarrow>
      fst (tool_handler quotes_latest api_key net id_one) = Inr bitcoin_body)"
proof -
  have u: "tool_url quotes_latest = ''https://pro-api.coinmarketcap.com/v1/exchange/quotes/latest''"
    by (simp add: quotes_latest_def)
  show ?thesis
    by (simp add: build_params_quotes_latest handler_result [OF build_params_quotes_latest] u
        raise_for_status_def)
qed

theorem quotes_latest_scenario_witness:
  "fst (tool_handler quotes_latest None ok_upstream id_one) =
     Inr (JObj [(''data'', JObj [(''1'', JObj [(''name'', JStr ''Bitcoin'')])])])"
  using quotes_latest_scenario [of ok_upstream None]
  by (simp add: ok_upstream_def bitcoin_body_def)

text \<open>
  C10. When the resolved key is \<^verbatim>\<open>None\<close> or the empty string, every handler still sends
  its request, and the request has no header.
\<close>

theorem no_credential_no_headers:
  assumes "t \<in> set tools" and "api_key = None \<or> api_key = Some []"
  shows "\<exists>q. snd (tool_handler t api_key net kw) =
           [\<lparr>req_method = ''GET'', req_url = tool_url t, req_params = q,
             req_headers = [], req_timeout = 30\<rparr>]"
proof -
  from build_params_total [OF assms(1)] obtain q where "build_params t kw = Inr q"
    by blast
  then have "snd (tool_handler t api_key net kw) =
           [\<lparr>req_method = ''GET'', req_url = tool_url t, req_params = q,
             req_headers = [], req_timeout = 30\<rparr>]"
    using assms(2) by (auto simp: handler_sent auth_headers_def)
  then show ?thesis ..
qed

theorem no_credential_no_headers_witness:
  "\<exists>q. snd (tool_handler key_info (Some []) ok_upstream Map.empty) =
           [\<lparr>req_method = ''GET'', req_url = tool_url key_info, req_params = q,
             req_headers = [], req_timeout = 30\<rparr>]"
  using no_credential_no_headers [of key_info "Some []" ok_upstream Map.empty]
  by (simp add: tools_def)

end
